theory Spec2Isabelle
  imports Complex_Main
begin

section \<open>Data model of \<open>jaxlib/cusolver.py\<close>\<close>

text \<open>
  Element types. The source compares a dtype against \<open>np.float32\<close>, \<open>np.float64\<close>,
  \<open>np.complex64\<close> and \<open>np.complex128\<close> and builds \<open>np.int8\<close> and \<open>np.int32\<close>
  result buffers; the other constructors are the remaining element types an operand can
  carry.
\<close>

datatype dtype =
    bool8 | int8 | int16 | int32 | int64
  | uint8 | uint16 | uint32 | uint64
  | float16 | bfloat16 | float32 | float64
  | complex64 | complex128

text \<open>
  \<open>_Shape.array_shape(dtype, dimensions, minor_to_major)\<close> and
  \<open>_Shape.tuple_shape(shapes)\<close>. Dimensions and layout entries are Python integers.
\<close>

datatype shape =
    array_shape dtype "int list" "int list"
  | tuple_shape "shape list"

text \<open>
  Values handled by the computation builder. \<open>Parameter\<close> stands for an operand that
  the caller built before (identified by a number, carrying its shape); the other three
  constructors are the builder operations the module itself uses:
  \<open>c.CustomCall(name, operands, shape_with_layout, operand_shapes_with_layout, opaque)\<close>,
  \<open>c.GetTupleElement(op, i)\<close> and \<open>c.Slice(op, start, limit)\<close>.
\<close>

datatype xla_op =
    Parameter nat shape
  | CustomCall string "xla_op list" shape "shape list" string
  | GetTupleElement xla_op nat
  | Slice xla_op "int list" "int list"

text \<open>
  The exceptions the module can raise, as values.
  \<^item> \<open>AssertionError\<close>: a failed \<open>assert\<close> (it carries no message in this module);
  \<^item> \<open>ValueError_mismatch a_shape b_shape\<close>: the
    \<open>ValueError("Argument mismatch for trsm, got {} and {}")\<close> of \<open>trsm\<close>, with the two
    shapes it formats into the message;
  \<^item> \<open>ValueError_unpack\<close>: the failed tuple unpacking \<open>m, n = a_shape.dimensions()\<close>;
  \<^item> \<open>NotImplementedError_dtype d\<close>: \<open>NotImplementedError("Unsupported dtype {}")\<close>;
  \<^item> \<open>NotImplementedError_conj\<close>:
    \<open>NotImplementedError("Conjugation without transposition not supported")\<close>;
  \<^item> \<open>IndexError\<close>: indexing an empty tuple;
  \<^item> \<open>XlaError\<close>: an error raised by the builder itself (shape query of an ill-formed
    value, dimensions of a tuple shape).
\<close>

datatype error =
    AssertionError
  | ValueError_mismatch shape shape
  | ValueError_unpack
  | NotImplementedError_dtype dtype
  | NotImplementedError_conj
  | IndexError
  | XlaError

text \<open>
  The descriptor builders of \<open>cublas_kernels\<close> and \<open>cusolver_kernels\<close> are external. A
  request records which builder is called and with which arguments; the builders
  themselves are a parameter \<open>build\<close> of every operation, returning the workspace size
  and the opaque configuration bytes.
\<close>

datatype descriptor_request =
    build_trsm_batched_descriptor dtype int int int bool bool bool bool bool
  | build_getrf_batched_descriptor dtype int int
  | build_getrf_descriptor dtype int int int
  | build_geqrf_descriptor dtype int int int
  | build_orgqr_descriptor dtype int int int int
  | build_syevj_descriptor dtype bool int int
  | build_syevd_descriptor dtype bool int int
  | build_gesvd_descriptor dtype int int int bool bool

type_synonym descriptor_builder = "descriptor_request \<Rightarrow> int \<times> string"

text \<open>
  The effects of one operation, in order: each consultation of a descriptor builder and
  each custom call handed to the computation builder \<open>c\<close>. An operation takes the trace
  so far and returns it extended; an exception leaves the trace as it was when raised.
\<close>

datatype event =
    DescriptorBuilt descriptor_request
  | CustomCallIssued xla_op

type_synonym computation_builder = "event list"

subsection \<open>The builder's shape query\<close>

text \<open>
  Modelled from the spec: \<open>c.GetShape\<close>, \<open>c.GetTupleElement\<close> and \<open>c.Slice\<close> belong to
  the compiler boundary (\<open>xla_client\<close>), which is not part of the module. The shape of a
  custom call is its declared \<open>shape_with_layout\<close>; the shape of a tuple element is the
  declared shape at that index; a slice from \<open>start\<close> to \<open>limit\<close> (within the bounds of
  the operand) has dimensions \<open>limit - start\<close>.
\<close>

fun slice_ok :: "int list \<Rightarrow> int list \<Rightarrow> int list \<Rightarrow> bool" where
  "slice_ok [] [] [] = True"
| "slice_ok (s # ss) (l # ls) (d # ds) = (0 \<le> s \<and> s \<le> l \<and> l \<le> d \<and> slice_ok ss ls ds)"
| "slice_ok _ _ _ = False"

fun GetShape :: "xla_op \<Rightarrow> error + shape" where
  "GetShape (Parameter i s) = Inr s"
| "GetShape (CustomCall name ops s oss opaque) = Inr s"
| "GetShape (GetTupleElement x i) =
     (case GetShape x of
        Inr (tuple_shape ss) \<Rightarrow> (if i < length ss then Inr (ss ! i) else Inl XlaError)
      | _ \<Rightarrow> Inl XlaError)"
| "GetShape (Slice x start limit) =
     (case GetShape x of
        Inr (array_shape dt dims lay) \<Rightarrow>
          (if slice_ok start limit dims
           then Inr (array_shape dt (map2 (\<lambda>l s. l - s) limit start) lay)
           else Inl XlaError)
      | _ \<Rightarrow> Inl XlaError)"

subsection \<open>Helpers of the module\<close>

text \<open>\<open>_real_type(dtype)\<close>: the real equivalent of a dtype.\<close>

fun real_type :: "dtype \<Rightarrow> error + dtype" where
  "real_type d =
     (if d = float32 then Inr float32
      else if d = float64 then Inr float64
      else if d = complex64 then Inr float32
      else if d = complex128 then Inr float64
      else Inl (NotImplementedError_dtype d))"

text \<open>\<open>_prod = lambda xs: reduce(operator.mul, xs, 1)\<close>.\<close>

definition prod_xs :: "int list \<Rightarrow> int" where
  "prod_xs xs = foldl (\<lambda>x y. x * y) 1 xs"

text \<open>\<open>tuple(range(start, -1, -1))\<close>: \<open>start, start - 1, ..., 0\<close>, empty when \<open>start < 0\<close>.\<close>

definition range_down :: "int \<Rightarrow> int list" where
  "range_down start = rev [0..start]"

section \<open>The operations\<close>

text \<open>
  Every operation takes the descriptor builders, the trace of the computation builder
  \<open>c\<close> and its operands, and returns the exception or the values it returns together
  with the trace. \<open>dims[-2:]\<close> is read by index after the rank assertion, and
  \<open>dims[:-2]\<close> is \<open>take (length dims - 2) dims\<close>.
\<close>

text \<open>\<open>trsm(c, a, b, left_side, lower, trans_a, conj_a, diag)\<close>: batched triangular solve.\<close>

definition trsm ::
  "descriptor_builder \<Rightarrow> computation_builder \<Rightarrow> xla_op \<Rightarrow> xla_op \<Rightarrow>
   bool \<Rightarrow> bool \<Rightarrow> bool \<Rightarrow> bool \<Rightarrow> bool \<Rightarrow> (error + xla_op) \<times> computation_builder" where
  "trsm build c a b left_side lower trans_a conj_a diag =
     (case GetShape b of
        Inl e \<Rightarrow> (Inl e, c)
      | Inr (tuple_shape ss) \<Rightarrow> (Inl XlaError, c)
      | Inr (array_shape dtype dims b_layout) \<Rightarrow>
          if \<not> 2 \<le> length dims then (Inl AssertionError, c)
          else
            let m = dims ! (length dims - 2);
                n = dims ! (length dims - 1);
                batch_dims = take (length dims - 2) dims;
                num_bd = int (length batch_dims);
                batch = prod_xs batch_dims;
                k = (if left_side then m else n)
            in
            (case GetShape a of
               Inl e \<Rightarrow> (Inl e, c)
             | Inr (tuple_shape ss) \<Rightarrow> (Inl XlaError, c)
             | Inr (array_shape a_dtype a_dims a_layout) \<Rightarrow>
                 if batch_dims @ [k, k] \<noteq> a_dims \<or> a_dtype \<noteq> dtype
                 then (Inl (ValueError_mismatch (array_shape a_dtype a_dims a_layout)
                                               (array_shape dtype dims b_layout)), c)
                 else if conj_a \<and> \<not> trans_a then (Inl NotImplementedError_conj, c)
                 else
                   let req = build_trsm_batched_descriptor dtype batch m n
                               left_side lower trans_a conj_a diag;
                       lwork = fst (build req);
                       opaque = snd (build req);
                       layout = [num_bd, num_bd + 1] @ range_down (num_bd - 1);
                       out = CustomCall ''cublas_trsm_batched'' [a, b]
                               (tuple_shape
                                  [array_shape dtype dims layout,
                                   array_shape int8 [lwork] [0],
                                   array_shape int8 [lwork] [0]])
                               [array_shape dtype a_dims layout,
                                array_shape dtype dims layout]
                               opaque
                   in (Inr (GetTupleElement out 0),
                       c @ [DescriptorBuilt req, CustomCallIssued out])))"

text \<open>\<open>getrf(c, a)\<close>: LU decomposition.\<close>

definition getrf ::
  "descriptor_builder \<Rightarrow> computation_builder \<Rightarrow> xla_op \<Rightarrow>
   (error + xla_op \<times> xla_op \<times> xla_op) \<times> computation_builder" where
  "getrf build c a =
     (case GetShape a of
        Inl e \<Rightarrow> (Inl e, c)
      | Inr (tuple_shape ss) \<Rightarrow> (Inl XlaError, c)
      | Inr (array_shape dtype dims a_layout) \<Rightarrow>
          if \<not> 2 \<le> length dims then (Inl AssertionError, c)
          else
            let m = dims ! (length dims - 2);
                n = dims ! (length dims - 1);
                batch_dims = take (length dims - 2) dims;
                num_bd = int (length batch_dims);
                batch = prod_xs batch_dims;
                batched = (batch > 1 \<and> m = n \<and> m div batch \<le> 128);
                req = (if batched then build_getrf_batched_descriptor dtype batch m
                       else build_getrf_descriptor dtype batch m n);
                lwork = fst (build req);
                opaque = snd (build req);
                workspace = (if batched then array_shape int8 [lwork] [0]
                             else array_shape dtype [lwork] [0]);
                kernel = (if batched then ''cublas_getrf_batched'' else ''cusolver_getrf'');
                out = CustomCall kernel [a]
                        (tuple_shape
                           [array_shape dtype (batch_dims @ [m, n])
                              ([num_bd, num_bd + 1] @ range_down (num_bd - 1)),
                            array_shape int32 (batch_dims @ [min m n]) (range_down num_bd),
                            array_shape int32 batch_dims (range_down (num_bd - 1)),
                            workspace])
                        [array_shape dtype (batch_dims @ [m, n])
                           ([num_bd, num_bd + 1] @ range_down (num_bd - 1))]
                        opaque
            in (Inr (GetTupleElement out 0, GetTupleElement out 1, GetTupleElement out 2),
                c @ [DescriptorBuilt req, CustomCallIssued out]))"

text \<open>\<open>geqrf(c, a)\<close>: QR decomposition.\<close>

definition geqrf ::
  "descriptor_builder \<Rightarrow> computation_builder \<Rightarrow> xla_op \<Rightarrow>
   (error + xla_op \<times> xla_op \<times> xla_op) \<times> computation_builder" where
  "geqrf build c a =
     (case GetShape a of
        Inl e \<Rightarrow> (Inl e, c)
      | Inr (tuple_shape ss) \<Rightarrow> (Inl XlaError, c)
      | Inr (array_shape dtype dims a_layout) \<Rightarrow>
          if \<not> 2 \<le> length dims then (Inl AssertionError, c)
          else
            let m = dims ! (length dims - 2);
                n = dims ! (length dims - 1);
                batch_dims = take (length dims - 2) dims;
                num_bd = int (length batch_dims);
                batch = prod_xs batch_dims;
                req = build_geqrf_descriptor dtype batch m n;
                lwork = fst (build req);
                opaque = snd (build req);
                workspace = array_shape dtype [lwork] [0];
                kernel = ''cusolver_geqrf'';
                out = CustomCall kernel [a]
                        (tuple_shape
                           [array_shape dtype (batch_dims @ [m, n])
                              ([num_bd, num_bd + 1] @ range_down (num_bd - 1)),
                            array_shape dtype (batch_dims @ [min m n]) (range_down num_bd),
                            array_shape int32 batch_dims (range_down (num_bd - 1)),
                            workspace])
                        [array_shape dtype (batch_dims @ [m, n])
                           ([num_bd, num_bd + 1] @ range_down (num_bd - 1))]
                        opaque
            in (Inr (GetTupleElement out 0, GetTupleElement out 1, GetTupleElement out 2),
                c @ [DescriptorBuilt req, CustomCallIssued out]))"

text \<open>
  \<open>orgqr(c, a, tau)\<close>: product of elementary Householder reflections.
  \<open>tau_dims[:-1]\<close> is \<open>butlast tau_dims\<close>; \<open>tau_dims[-1]\<close> raises \<open>IndexError\<close> on the
  empty tuple.
\<close>

definition orgqr ::
  "descriptor_builder \<Rightarrow> computation_builder \<Rightarrow> xla_op \<Rightarrow> xla_op \<Rightarrow>
   (error + xla_op \<times> xla_op) \<times> computation_builder" where
  "orgqr build c a tau =
     (case GetShape a of
        Inl e \<Rightarrow> (Inl e, c)
      | Inr (tuple_shape ss) \<Rightarrow> (Inl XlaError, c)
      | Inr (array_shape dtype dims a_layout) \<Rightarrow>
          if \<not> 2 \<le> length dims then (Inl AssertionError, c)
          else
            let m = dims ! (length dims - 2);
                n = dims ! (length dims - 1);
                batch_dims = take (length dims - 2) dims;
                num_bd = int (length batch_dims);
                batch = prod_xs batch_dims
            in
            (case GetShape tau of
               Inl e \<Rightarrow> (Inl e, c)
             | Inr (tuple_shape ss) \<Rightarrow> (Inl XlaError, c)
             | Inr (array_shape tau_dtype tau_dims tau_layout) \<Rightarrow>
                 if \<not> butlast tau_dims = take (length dims - 2) dims
                 then (Inl AssertionError, c)
                 else if tau_dims = [] then (Inl IndexError, c)
                 else
                   let k = last tau_dims;
                       req = build_orgqr_descriptor dtype batch m n k;
                       lwork = fst (build req);
                       opaque = snd (build req);
                       workspace = array_shape dtype [lwork] [0];
                       kernel = ''cusolver_orgqr'';
                       out = CustomCall kernel [a, tau]
                               (tuple_shape
                                  [array_shape dtype (batch_dims @ [m, n])
                                     ([num_bd, num_bd + 1] @ range_down (num_bd - 1)),
                                   array_shape int32 batch_dims (range_down (num_bd - 1)),
                                   workspace])
                               [array_shape dtype (batch_dims @ [m, n])
                                  ([num_bd, num_bd + 1] @ range_down (num_bd - 1)),
                                array_shape dtype (batch_dims @ [k]) (range_down num_bd)]
                               opaque
                   in (Inr (GetTupleElement out 0, GetTupleElement out 1),
                       c @ [DescriptorBuilt req, CustomCallIssued out])))"

text \<open>
  \<open>syevd(c, a, lower)\<close>: symmetric (Hermitian) eigendecomposition. The descriptor
  builder of the selected kernel is consulted before \<open>_real_type(dtype)\<close> is evaluated.
\<close>

definition syevd ::
  "descriptor_builder \<Rightarrow> computation_builder \<Rightarrow> xla_op \<Rightarrow> bool \<Rightarrow>
   (error + xla_op \<times> xla_op \<times> xla_op) \<times> computation_builder" where
  "syevd build c a lower =
     (case GetShape a of
        Inl e \<Rightarrow> (Inl e, c)
      | Inr (tuple_shape ss) \<Rightarrow> (Inl XlaError, c)
      | Inr (array_shape dtype dims a_layout) \<Rightarrow>
          if \<not> 2 \<le> length dims then (Inl AssertionError, c)
          else
            let m = dims ! (length dims - 2);
                n = dims ! (length dims - 1)
            in
            if \<not> m = n then (Inl AssertionError, c)
            else
              let batch_dims = take (length dims - 2) dims;
                  num_bd = int (length batch_dims);
                  batch = prod_xs batch_dims;
                  layout = [num_bd, num_bd + 1] @ range_down (num_bd - 1);
                  kernel = (if n \<le> 32 then ''cusolver_syevj'' else ''cusolver_syevd'');
                  req = (if n \<le> 32 then build_syevj_descriptor dtype lower batch n
                         else build_syevd_descriptor dtype lower batch n);
                  lwork = fst (build req);
                  opaque = snd (build req)
              in
              (case real_type dtype of
                 Inl e \<Rightarrow> (Inl e, c @ [DescriptorBuilt req])
               | Inr eigvals_type \<Rightarrow>
                   let out = CustomCall kernel [a]
                               (tuple_shape
                                  [array_shape dtype dims layout,
                                   array_shape eigvals_type (batch_dims @ [n])
                                     (range_down num_bd),
                                   array_shape int32 batch_dims (range_down (num_bd - 1)),
                                   array_shape dtype [lwork] [0]])
                               [array_shape dtype dims layout]
                               opaque
                   in (Inr (GetTupleElement out 0, GetTupleElement out 1,
                            GetTupleElement out 2),
                       c @ [DescriptorBuilt req, CustomCallIssued out])))"

text \<open>
  \<open>gesvd(c, a, full_matrices, compute_uv)\<close>: singular value decomposition. It returns
  \<open>(s, u, vt, info)\<close>.
\<close>

definition gesvd ::
  "descriptor_builder \<Rightarrow> computation_builder \<Rightarrow> xla_op \<Rightarrow> bool \<Rightarrow> bool \<Rightarrow>
   (error + xla_op \<times> xla_op \<times> xla_op \<times> xla_op) \<times> computation_builder" where
  "gesvd build c a full_matrices compute_uv =
     (case GetShape a of
        Inl e \<Rightarrow> (Inl e, c)
      | Inr (tuple_shape ss) \<Rightarrow> (Inl XlaError, c)
      | Inr (array_shape dtype dims a_layout) \<Rightarrow>
          (case dims of
             [m, n] \<Rightarrow>
               (case real_type dtype of
                  Inl e \<Rightarrow> (Inl e, c)
                | Inr singular_vals_dtype \<Rightarrow>
                    let b = 1;
                        req = (if m < n
                               then build_gesvd_descriptor dtype b n m compute_uv full_matrices
                               else build_gesvd_descriptor dtype b m n compute_uv full_matrices);
                        lwork = fst (build req);
                        opaque = snd (build req);
                        out = (if m < n
                               then CustomCall ''cusolver_gesvd'' [a]
                                      (tuple_shape
                                         [array_shape dtype [m, n] [1, 0],
                                          array_shape singular_vals_dtype [min m n] [0],
                                          array_shape dtype [n, n] [1, 0],
                                          array_shape dtype [m, m] [1, 0],
                                          array_shape int32 [] [],
                                          array_shape dtype [lwork] [0]])
                                      [array_shape dtype [m, n] [1, 0]]
                                      opaque
                               else CustomCall ''cusolver_gesvd'' [a]
                                      (tuple_shape
                                         [array_shape dtype [m, n] [0, 1],
                                          array_shape singular_vals_dtype [min m n] [0],
                                          array_shape dtype [m, m] [0, 1],
                                          array_shape dtype [n, n] [0, 1],
                                          array_shape int32 [] [],
                                          array_shape dtype [lwork] [0]])
                                      [array_shape dtype [m, n] [0, 1]]
                                      opaque);
                        s = GetTupleElement out 1;
                        vt = (if m < n then GetTupleElement out 2 else GetTupleElement out 3);
                        u = (if m < n then GetTupleElement out 3 else GetTupleElement out 2);
                        info = GetTupleElement out 4;
                        u' = (if \<not> full_matrices then Slice u [0, 0] [m, min m n] else u);
                        vt' = (if \<not> full_matrices then Slice vt [0, 0] [min m n, n] else vt)
                    in (Inr (s, u', vt', info),
                        c @ [DescriptorBuilt req, CustomCallIssued out]))
           | _ \<Rightarrow> (Inl ValueError_unpack, c)))"

section \<open>Reading a trace and a custom call\<close>

fun custom_calls :: "event list \<Rightarrow> xla_op list" where
  "custom_calls [] = []"
| "custom_calls (CustomCallIssued x # t) = x # custom_calls t"
| "custom_calls (DescriptorBuilt r # t) = custom_calls t"

fun descriptor_requests :: "event list \<Rightarrow> descriptor_request list" where
  "descriptor_requests [] = []"
| "descriptor_requests (DescriptorBuilt r # t) = r # descriptor_requests t"
| "descriptor_requests (CustomCallIssued x # t) = descriptor_requests t"

text \<open>The batch count a descriptor request was built with.\<close>

fun request_batch :: "descriptor_request \<Rightarrow> int" where
  "request_batch (build_trsm_batched_descriptor dt batch m n ls lo tr cj dg) = batch"
| "request_batch (build_getrf_batched_descriptor dt batch m) = batch"
| "request_batch (build_getrf_descriptor dt batch m n) = batch"
| "request_batch (build_geqrf_descriptor dt batch m n) = batch"
| "request_batch (build_orgqr_descriptor dt batch m n k) = batch"
| "request_batch (build_syevj_descriptor dt lower batch n) = batch"
| "request_batch (build_syevd_descriptor dt lower batch n) = batch"
| "request_batch (build_gesvd_descriptor dt b m n cuv fm) = b"

fun call_target_name :: "xla_op \<Rightarrow> string" where
  "call_target_name (CustomCall name ops s oss opaque) = name"
| "call_target_name _ = []"

fun call_operands :: "xla_op \<Rightarrow> xla_op list" where
  "call_operands (CustomCall name ops s oss opaque) = ops"
| "call_operands _ = []"

fun result_shapes :: "xla_op \<Rightarrow> shape list" where
  "result_shapes (CustomCall name ops (tuple_shape ss) oss opaque) = ss"
| "result_shapes _ = []"

fun operand_shapes :: "xla_op \<Rightarrow> shape list" where
  "operand_shapes (CustomCall name ops s oss opaque) = oss"
| "operand_shapes _ = []"

fun element_type :: "shape \<Rightarrow> dtype option" where
  "element_type (array_shape dt dims lay) = Some dt"
| "element_type (tuple_shape ss) = None"

fun dimensions :: "shape \<Rightarrow> int list" where
  "dimensions (array_shape dt dims lay) = dims"
| "dimensions (tuple_shape ss) = []"

fun minor_to_major :: "shape \<Rightarrow> int list" where
  "minor_to_major (array_shape dt dims lay) = lay"
| "minor_to_major (tuple_shape ss) = []"

text \<open>A fixed descriptor builder, for evaluating the operations on concrete inputs.\<close>

definition fixed_builder :: descriptor_builder where
  "fixed_builder req = (1024, ''cfg'')"

section \<open>The specification's notions\<close>

text \<open>
  The layout convention as the specification words it, for \<open>N\<close> batch dimensions:
  \<open>(N, N+1, N-1, N-2, ..., 0)\<close> for a batched matrix, \<open>(N, N-1, ..., 0)\<close> for a per-batch
  vector and \<open>(N-1, ..., 0)\<close> for a per-batch scalar.
\<close>

definition matrix_layout :: "nat \<Rightarrow> int list" where
  "matrix_layout N = int N # int (N + 1) # map int (rev [0..<N])"

definition vector_layout :: "nat \<Rightarrow> int list" where
  "vector_layout N = map int (rev [0..<Suc N])"

definition scalar_layout :: "nat \<Rightarrow> int list" where
  "scalar_layout N = map int (rev [0..<N])"

text \<open>
  The LU selection rule as the specification words it: the batched-direct kernel when
  \<open>batch_count > 1\<close>, \<open>rows = cols\<close> and the ratio \<open>rows / batch_count\<close>, a true
  quotient, is at most 128.
\<close>

definition spec_lu_batched_direct :: "int \<Rightarrow> int \<Rightarrow> int \<Rightarrow> bool" where
  "spec_lu_batched_direct batch_count rows cols =
     (batch_count > 1 \<and> rows = cols
      \<and> real_of_int rows / real_of_int batch_count \<le> 128)"

text \<open>
  The specification's BatchSpec of a dimension sequence: the batch prefix, its product,
  and the two trailing dimensions.
\<close>

record BatchSpec =
  batch_dims :: "int list"
  batch_count :: int
  rows :: int
  cols :: int

definition derive_BatchSpec :: "int list \<Rightarrow> BatchSpec" where
  "derive_BatchSpec dims =
     \<lparr> batch_dims = take (length dims - 2) dims,
       batch_count = prod_list (take (length dims - 2) dims),
       rows = dims ! (length dims - 2),
       cols = dims ! (length dims - 1) \<rparr>"

section \<open>Auxiliary facts\<close>

lemma foldl_mult_prod_list: "foldl (\<lambda>x y. x * y) a xs = a * prod_list (xs :: int list)"
  by (induction xs arbitrary: a) (simp_all add: mult.assoc)

lemma prod_xs_prod_list: "prod_xs xs = prod_list xs"
  by (simp add: prod_xs_def foldl_mult_prod_list)

lemma upto_int_nat: "[0..int N - 1] = map int [0..<N]"
proof (induction N)
  case 0
  show ?case by simp
next
  case (Suc N)
  have "[0..int (Suc N) - 1] = [0..int N - 1] @ [int N]"
    using upto_rec2 [of 0 "int N"] by simp
  with Suc show ?case by simp
qed

lemma range_down_pred: "range_down (int N - 1) = map int (rev [0..<N])"
  by (simp add: range_down_def upto_int_nat rev_map)

lemma range_down_nat: "range_down (int N) = map int (rev [0..<Suc N])"
  using range_down_pred [of "Suc N"] by simp

lemma custom_calls_append: "custom_calls (xs @ ys) = custom_calls xs @ custom_calls ys"
  by (induction xs rule: custom_calls.induct) simp_all

lemma descriptor_requests_append:
  "descriptor_requests (xs @ ys) = descriptor_requests xs @ descriptor_requests ys"
  by (induction xs rule: descriptor_requests.induct) simp_all

lemma take_trailing_two:
  "2 \<le> length dims \<Longrightarrow>
   take (length dims - 2) dims @ [dims ! (length dims - 2), dims ! (length dims - 1)] = dims"
proof -
  assume len: "2 \<le> length dims"
  have "drop (length dims - 2) dims = [dims ! (length dims - 2), dims ! (length dims - 1)]"
  proof (rule nth_equalityI)
    show "length (drop (length dims - 2) dims)
          = length [dims ! (length dims - 2), dims ! (length dims - 1)]"
      using len by simp
  next
    fix i assume "i < length (drop (length dims - 2) dims)"
    with len have "i = 0 \<or> i = 1" by auto
    then show "drop (length dims - 2) dims ! i
               = [dims ! (length dims - 2), dims ! (length dims - 1)] ! i"
      using len by (auto simp: Suc_diff_Suc numeral_2_eq_2)
  qed
  then show ?thesis
    using append_take_drop_id [of "length dims - 2" dims] by simp
qed

lemma nth_batch_append:
  "(bd @ [m, n]) ! (length (bd @ [m, n]) - 2) = m"
  "(bd @ [m, n]) ! (length (bd @ [m, n]) - 1) = n"
  "take (length (bd @ [m, n]) - 2) (bd @ [m, n]) = bd"
  by (simp_all add: nth_append)

lemma GetShape_error: "GetShape x = Inl e \<Longrightarrow> e = XlaError"
  by (induction x arbitrary: e)
     (auto split: sum.splits shape.splits if_splits)

subsection \<open>Layouts declared by each operation\<close>

lemma dims_split:
  assumes "2 \<le> length dims"
  obtains bd m n where "dims = bd @ [m, n]"
  using take_trailing_two [OF assms] by metis

lemmas layout_simps =
  Let_def nth_append range_down_nat range_down_pred custom_calls_append
  matrix_layout_def vector_layout_def scalar_layout_def

lemma getrf_layouts:
  assumes "GetShape a = Inr (array_shape dt dims lay)"
    and "fst (getrf build c a) = Inr r"
  shows "\<exists>out. custom_calls (snd (getrf build c a)) = custom_calls c @ [out]
           \<and> map minor_to_major (operand_shapes out) = [matrix_layout (length dims - 2)]
           \<and> map minor_to_major (result_shapes out)
               = [matrix_layout (length dims - 2), vector_layout (length dims - 2),
                  scalar_layout (length dims - 2), [0]]"
proof -
  from assms have len: "2 \<le> length dims"
    by (auto simp add: getrf_def split: if_splits)
  then obtain bd m n where "dims = bd @ [m, n]" by (rule dims_split)
  with assms(1) show ?thesis
    by (simp add: getrf_def layout_simps)
qed

lemma geqrf_layouts:
  assumes "GetShape a = Inr (array_shape dt dims lay)"
    and "fst (geqrf build c a) = Inr r"
  shows "\<exists>out. custom_calls (snd (geqrf build c a)) = custom_calls c @ [out]
           \<and> map minor_to_major (operand_shapes out) = [matrix_layout (length dims - 2)]
           \<and> map minor_to_major (result_shapes out)
               = [matrix_layout (length dims - 2), vector_layout (length dims - 2),
                  scalar_layout (length dims - 2), [0]]"
proof -
  from assms have len: "2 \<le> length dims"
    by (auto simp add: geqrf_def split: if_splits)
  then obtain bd m n where "dims = bd @ [m, n]" by (rule dims_split)
  with assms(1) show ?thesis
    by (simp add: geqrf_def layout_simps)
qed

lemma syevd_layouts:
  assumes "GetShape a = Inr (array_shape dt dims lay)"
    and "fst (syevd build c a lower) = Inr r"
  shows "\<exists>out. custom_calls (snd (syevd build c a lower)) = custom_calls c @ [out]
           \<and> map minor_to_major (operand_shapes out) = [matrix_layout (length dims - 2)]
           \<and> map minor_to_major (result_shapes out)
               = [matrix_layout (length dims - 2), vector_layout (length dims - 2),
                  scalar_layout (length dims - 2), [0]]"
proof -
  from assms have len: "2 \<le> length dims"
    by (auto simp add: syevd_def split: if_splits)
  then obtain bd m n where dims: "dims = bd @ [m, n]" by (rule dims_split)
  from assms dims have mn: "m = n"
    by (auto simp add: syevd_def Let_def nth_append split: if_splits)
  from assms dims mn obtain rt where "real_type dt = Inr rt"
    by (cases "real_type dt")
       (auto simp add: syevd_def Let_def nth_append simp del: real_type.simps)
  with assms(1) dims mn show ?thesis
    by (simp add: syevd_def layout_simps del: real_type.simps)
qed

lemma orgqr_layouts:
  assumes "GetShape a = Inr (array_shape dt dims lay)"
    and "fst (orgqr build c a tau) = Inr r"
  shows "\<exists>out. custom_calls (snd (orgqr build c a tau)) = custom_calls c @ [out]
           \<and> map minor_to_major (operand_shapes out)
               = [matrix_layout (length dims - 2), vector_layout (length dims - 2)]
           \<and> map minor_to_major (result_shapes out)
               = [matrix_layout (length dims - 2), scalar_layout (length dims - 2), [0]]"
proof -
  from assms have len: "2 \<le> length dims"
    by (auto simp add: orgqr_def split: if_splits)
  then obtain bd m n where dims: "dims = bd @ [m, n]" by (rule dims_split)
  from assms dims obtain tdt tdims tlay where
    tau: "GetShape tau = Inr (array_shape tdt tdims tlay)"
    by (auto simp add: orgqr_def Let_def split: sum.splits shape.splits)
  from assms dims tau have "butlast tdims = bd" "tdims \<noteq> []"
    by (auto simp add: orgqr_def Let_def split: if_splits)
  with assms(1) dims tau show ?thesis
    by (simp add: orgqr_def layout_simps)
qed

lemma trsm_layouts:
  assumes "GetShape b = Inr (array_shape dt dims lay)"
    and "fst (trsm build c a b left_side lower trans_a conj_a diag) = Inr r"
  shows "\<exists>out. custom_calls (snd (trsm build c a b left_side lower trans_a conj_a diag))
                 = custom_calls c @ [out]
           \<and> map minor_to_major (operand_shapes out)
               = [matrix_layout (length dims - 2), matrix_layout (length dims - 2)]
           \<and> map minor_to_major (result_shapes out)
               = [matrix_layout (length dims - 2), [0], [0]]"
proof -
  from assms have len: "2 \<le> length dims"
    by (auto simp add: trsm_def split: if_splits)
  then obtain bd m n where dims: "dims = bd @ [m, n]" by (rule dims_split)
  from assms dims obtain adt adims alay where
    a: "GetShape a = Inr (array_shape adt adims alay)"
    by (auto simp add: trsm_def Let_def split: sum.splits shape.splits)
  from assms dims a have ok:
    "adims = bd @ [if left_side then m else n, if left_side then m else n]"
    "adt = dt" "\<not> (conj_a \<and> \<not> trans_a)"
    by (auto simp add: trsm_def Let_def nth_append split: if_splits)
  with assms(1) dims a show ?thesis
    by (simp add: trsm_def layout_simps)
qed

lemma gesvd_layouts:
  assumes "GetShape a = Inr (array_shape dt dims lay)"
    and "fst (gesvd build c a full_matrices compute_uv) = Inr r"
  shows "\<exists>out l. custom_calls (snd (gesvd build c a full_matrices compute_uv))
                 = custom_calls c @ [out]
           \<and> length dims = 2
           \<and> l = (if dims ! 0 < dims ! 1 then [1, 0] else matrix_layout 0)
           \<and> map minor_to_major (operand_shapes out) = [l]
           \<and> map minor_to_major (result_shapes out)
               = [l, vector_layout 0, l, l, scalar_layout 0, [0]]"
proof -
  from assms obtain m n where dims: "dims = [m, n]"
    by (auto simp add: gesvd_def split: list.splits)
  from assms dims obtain rt where "real_type dt = Inr rt"
    by (cases "real_type dt") (auto simp add: gesvd_def simp del: real_type.simps)
  with assms(1) dims show ?thesis
    by (simp add: gesvd_def layout_simps del: real_type.simps)
qed

subsection \<open>Shapes declared by each operation\<close>

lemmas roundtrip_simps =
  Let_def nth_append prod_xs_prod_list derive_BatchSpec_def

lemma getrf_roundtrip:
  assumes "GetShape a = Inr (array_shape dt dims lay)"
    and "fst (getrf build c a) = Inr r"
  shows "\<exists>out req. snd (getrf build c a) = c @ [DescriptorBuilt req, CustomCallIssued out]
           \<and> 2 \<le> length dims
           \<and> derive_BatchSpec (dimensions (operand_shapes out ! 0)) = derive_BatchSpec dims
           \<and> request_batch req = batch_count (derive_BatchSpec dims)"
proof -
  from assms have len: "2 \<le> length dims"
    by (auto simp add: getrf_def split: if_splits)
  then obtain bd m n where "dims = bd @ [m, n]" by (rule dims_split)
  with assms(1) show ?thesis
    by (simp add: getrf_def roundtrip_simps)
qed

lemma geqrf_roundtrip:
  assumes "GetShape a = Inr (array_shape dt dims lay)"
    and "fst (geqrf build c a) = Inr r"
  shows "\<exists>out req. snd (geqrf build c a) = c @ [DescriptorBuilt req, CustomCallIssued out]
           \<and> 2 \<le> length dims
           \<and> derive_BatchSpec (dimensions (operand_shapes out ! 0)) = derive_BatchSpec dims
           \<and> request_batch req = batch_count (derive_BatchSpec dims)"
proof -
  from assms have len: "2 \<le> length dims"
    by (auto simp add: geqrf_def split: if_splits)
  then obtain bd m n where "dims = bd @ [m, n]" by (rule dims_split)
  with assms(1) show ?thesis
    by (simp add: geqrf_def roundtrip_simps)
qed

lemma syevd_roundtrip:
  assumes "GetShape a = Inr (array_shape dt dims lay)"
    and "fst (syevd build c a lower) = Inr r"
  shows "\<exists>out req. snd (syevd build c a lower)
                     = c @ [DescriptorBuilt req, CustomCallIssued out]
           \<and> 2 \<le> length dims
           \<and> derive_BatchSpec (dimensions (operand_shapes out ! 0)) = derive_BatchSpec dims
           \<and> request_batch req = batch_count (derive_BatchSpec dims)"
proof -
  from assms have len: "2 \<le> length dims"
    by (auto simp add: syevd_def split: if_splits)
  then obtain bd m n where dims: "dims = bd @ [m, n]" by (rule dims_split)
  from assms dims have mn: "m = n"
    by (auto simp add: syevd_def Let_def nth_append split: if_splits)
  from assms dims mn obtain rt where "real_type dt = Inr rt"
    by (cases "real_type dt")
       (auto simp add: syevd_def Let_def nth_append simp del: real_type.simps)
  with assms(1) dims mn show ?thesis
    by (simp add: syevd_def roundtrip_simps del: real_type.simps)
qed

lemma orgqr_roundtrip:
  assumes "GetShape a = Inr (array_shape dt dims lay)"
    and "fst (orgqr build c a tau) = Inr r"
  shows "\<exists>out req. snd (orgqr build c a tau)
                     = c @ [DescriptorBuilt req, CustomCallIssued out]
           \<and> 2 \<le> length dims
           \<and> derive_BatchSpec (dimensions (operand_shapes out ! 0)) = derive_BatchSpec dims
           \<and> request_batch req = batch_count (derive_BatchSpec dims)"
proof -
  from assms have len: "2 \<le> length dims"
    by (auto simp add: orgqr_def split: if_splits)
  then obtain bd m n where dims: "dims = bd @ [m, n]" by (rule dims_split)
  from assms dims obtain tdt tdims tlay where
    tau: "GetShape tau = Inr (array_shape tdt tdims tlay)"
    by (auto simp add: orgqr_def Let_def split: sum.splits shape.splits)
  from assms dims tau have "butlast tdims = bd" "tdims \<noteq> []"
    by (auto simp add: orgqr_def Let_def split: if_splits)
  with assms(1) dims tau show ?thesis
    by (simp add: orgqr_def roundtrip_simps)
qed

lemma trsm_roundtrip:
  assumes "GetShape b = Inr (array_shape dt dims lay)"
    and "fst (trsm build c a b left_side lower trans_a conj_a diag) = Inr r"
  shows "\<exists>out req. snd (trsm build c a b left_side lower trans_a conj_a diag)
                     = c @ [DescriptorBuilt req, CustomCallIssued out]
           \<and> 2 \<le> length dims
           \<and> derive_BatchSpec (dimensions (operand_shapes out ! 1)) = derive_BatchSpec dims
           \<and> request_batch req = batch_count (derive_BatchSpec dims)"
proof -
  from assms have len: "2 \<le> length dims"
    by (auto simp add: trsm_def split: if_splits)
  then obtain bd m n where dims: "dims = bd @ [m, n]" by (rule dims_split)
  from assms dims obtain adt adims alay where
    a: "GetShape a = Inr (array_shape adt adims alay)"
    by (auto simp add: trsm_def Let_def split: sum.splits shape.splits)
  from assms dims a have ok:
    "adims = bd @ [if left_side then m else n, if left_side then m else n]"
    "adt = dt" "\<not> (conj_a \<and> \<not> trans_a)"
    by (auto simp add: trsm_def Let_def nth_append split: if_splits)
  with assms(1) dims a show ?thesis
    by (simp add: trsm_def roundtrip_simps)
qed

lemma gesvd_roundtrip:
  assumes "GetShape a = Inr (array_shape dt dims lay)"
    and "fst (gesvd build c a full_matrices compute_uv) = Inr r"
  shows "\<exists>out req. snd (gesvd build c a full_matrices compute_uv)
                     = c @ [DescriptorBuilt req, CustomCallIssued out]
           \<and> 2 \<le> length dims
           \<and> derive_BatchSpec (dimensions (operand_shapes out ! 0)) = derive_BatchSpec dims
           \<and> request_batch req = batch_count (derive_BatchSpec dims)"
proof -
  from assms obtain m n where dims: "dims = [m, n]"
    by (auto simp add: gesvd_def split: list.splits)
  from assms dims obtain rt where "real_type dt = Inr rt"
    by (cases "real_type dt") (auto simp add: gesvd_def simp del: real_type.simps)
  with assms(1) dims show ?thesis
    by (simp add: gesvd_def roundtrip_simps del: real_type.simps)
qed

section \<open>Claims\<close>

text \<open>
  C7. The dtype classifier \<open>_real_type\<close> maps float32 to float32, float64 to float64,
  complex64 to float32 and complex128 to float64; for every other dtype it fails with
  the unsupported-dtype error (\<open>NotImplementedError("Unsupported dtype ...")\<close>); and on
  the supported set it is idempotent: any result it returns is mapped to itself.
\<close>

theorem real_type_classifier:
  "real_type float32 = Inr float32 \<and> real_type float64 = Inr float64
   \<and> real_type complex64 = Inr float32 \<and> real_type complex128 = Inr float64
   \<and> (d \<notin> {float32, float64, complex64, complex128}
        \<longrightarrow> real_type d = Inl (NotImplementedError_dtype d))
   \<and> (real_type e = Inr r \<longrightarrow> real_type r = Inr r \<and> r \<in> {float32, float64})"
  by (auto split: if_splits)

theorem real_type_classifier_witness:
  "int32 \<notin> {float32, float64, complex64, complex128}
   \<and> real_type int32 = Inl (NotImplementedError_dtype int32)
   \<and> real_type complex128 = Inr float64 \<and> real_type float64 = Inr float64"
  using real_type_classifier [of int32 complex128 float64] by simp

text \<open>
  C1, as stated, fails: the source divides with \<open>//\<close>, which rounds down (the module
  enables true division for \<open>/\<close>). With batch count 2 and a 257 by 257 matrix the ratio
  \<open>257 / 2 = 128.5\<close> exceeds 128, so the rule as worded selects the general kernel, but
  \<open>257 // 2 = 128\<close> and \<open>getrf\<close> issues the call to \<open>cublas_getrf_batched\<close>.
\<close>

theorem getrf_kernel_selection_counterexample:
  "map call_target_name
     (custom_calls (snd (getrf fixed_builder []
        (Parameter 0 (array_shape float32 [2, 257, 257] [2, 1, 0])))))
   = [''cublas_getrf_batched'']
   \<and> \<not> spec_lu_batched_direct (prod_list [2]) 257 257"
  by (simp add: getrf_def Let_def prod_xs_def spec_lu_batched_direct_def)

text \<open>
  C1, amended. For an LU factorization request whose operand has batch dimensions \<open>bd\<close>
  (of product \<open>batch_count\<close>) and trailing matrix dimensions \<open>(m, n)\<close>, \<open>getrf\<close> issues
  one custom call, to \<open>cublas_getrf_batched\<close> exactly when \<open>batch_count > 1\<close>, \<open>m = n\<close>
  and \<open>m // batch_count \<le> 128\<close>, where \<open>//\<close> is integer floor division, and to
  \<open>cusolver_getrf\<close> otherwise. In particular batch count 4 with a 64 by 64 matrix
  selects the batched kernel, batch count 4 with 1024 by 1024 the general kernel, and
  batch count 1 with 64 by 64 the general kernel. The quotient rounds down: batch count
  2 with 257 by 257 still selects the batched kernel, since \<open>257 // 2 = 128\<close>.
\<close>

theorem getrf_kernel_selection:
  assumes "GetShape a = Inr (array_shape dtype (bd @ [m, n]) lay)"
  shows "\<exists>out req.
           getrf build c a =
             (Inr (GetTupleElement out 0, GetTupleElement out 1, GetTupleElement out 2),
              c @ [DescriptorBuilt req, CustomCallIssued out])
           \<and> call_target_name out =
               (if prod_list bd > 1 \<and> m = n \<and> m div prod_list bd \<le> 128
                then ''cublas_getrf_batched'' else ''cusolver_getrf'')
           \<and> (prod_list bd = 4 \<and> m = 64 \<and> n = 64
                 \<longrightarrow> call_target_name out = ''cublas_getrf_batched'')
           \<and> (prod_list bd = 4 \<and> m = 1024 \<and> n = 1024
                 \<longrightarrow> call_target_name out = ''cusolver_getrf'')
           \<and> (prod_list bd = 1 \<and> m = 64 \<and> n = 64
                 \<longrightarrow> call_target_name out = ''cusolver_getrf'')
           \<and> (prod_list bd = 2 \<and> m = 257 \<and> n = 257
                 \<longrightarrow> call_target_name out = ''cublas_getrf_batched'')"
  using assms
  by (simp add: getrf_def Let_def prod_xs_prod_list nth_append)

theorem getrf_kernel_selection_witness:
  "GetShape (Parameter 0 (array_shape float32 [2, 2, 64, 64] [3, 2, 1, 0]))
     = Inr (array_shape float32 ([2, 2] @ [64, 64]) [3, 2, 1, 0])
   \<and> prod_list [2, 2] = (4 :: int)
   \<and> map call_target_name
        (custom_calls (snd (getrf fixed_builder []
           (Parameter 0 (array_shape float32 [2, 2, 64, 64] [3, 2, 1, 0])))))
      = [''cublas_getrf_batched'']"
  using getrf_kernel_selection
    [of "Parameter 0 (array_shape float32 [2, 2, 64, 64] [3, 2, 1, 0])"
        float32 "[2, 2]" 64 64 "[3, 2, 1, 0]" fixed_builder "[]"]
  by auto

text \<open>
  C4. For a symmetric/Hermitian eigendecomposition request on a square matrix of side
  \<open>n\<close> (with any batch dimensions \<open>bd\<close>), \<open>syevd\<close> selects \<open>cusolver_syevj\<close> exactly when
  \<open>n \<le> 32\<close> (so \<open>n = 32\<close> selects it and \<open>n = 64\<close> selects \<open>cusolver_syevd\<close>), and the
  eigenvalue result (tuple element 1) has the element type \<open>_real_type\<close> computes from
  the input dtype. Where \<open>_real_type\<close> fails, \<open>syevd\<close> fails with that error after having
  consulted the descriptor builder of the kernel selected by the same rule.
\<close>

theorem syevd_kernel_selection:
  assumes "GetShape a = Inr (array_shape dtype (bd @ [n, n]) lay)"
  shows "(real_type dtype = Inr rt \<longrightarrow>
            (\<exists>out req.
               syevd build c a lower =
                 (Inr (GetTupleElement out 0, GetTupleElement out 1, GetTupleElement out 2),
                  c @ [DescriptorBuilt req, CustomCallIssued out])
               \<and> call_target_name out =
                   (if n \<le> 32 then ''cusolver_syevj'' else ''cusolver_syevd'')
               \<and> (n = 32 \<longrightarrow> call_target_name out = ''cusolver_syevj'')
               \<and> (n = 64 \<longrightarrow> call_target_name out = ''cusolver_syevd'')
               \<and> element_type (result_shapes out ! 1) = Some rt
               \<and> GetShape (GetTupleElement out 1)
                   = Inr (array_shape rt (bd @ [n]) (vector_layout (length bd)))))
       \<and> (real_type dtype = Inl e \<longrightarrow>
            syevd build c a lower =
              (Inl e, c @ [DescriptorBuilt
                 (if n \<le> 32 then build_syevj_descriptor dtype lower (prod_list bd) n
                  else build_syevd_descriptor dtype lower (prod_list bd) n)]))"
  using assms
  by (simp add: syevd_def Let_def prod_xs_prod_list nth_append range_down_nat
        vector_layout_def del: real_type.simps)

theorem syevd_kernel_selection_witness:
  "GetShape (Parameter 0 (array_shape complex64 [7, 32, 32] [2, 1, 0]))
     = Inr (array_shape complex64 ([7] @ [32, 32]) [2, 1, 0])
   \<and> real_type complex64 = Inr float32
   \<and> map call_target_name
        (custom_calls (snd (syevd fixed_builder []
           (Parameter 0 (array_shape complex64 [7, 32, 32] [2, 1, 0])) False)))
      = [''cusolver_syevj'']
   \<and> GetShape (Parameter 0 (array_shape int32 [7, 64, 64] [2, 1, 0]))
     = Inr (array_shape int32 ([7] @ [64, 64]) [2, 1, 0])
   \<and> real_type int32 = Inl (NotImplementedError_dtype int32)
   \<and> syevd fixed_builder [] (Parameter 0 (array_shape int32 [7, 64, 64] [2, 1, 0])) False
      = (Inl (NotImplementedError_dtype int32),
         [DescriptorBuilt (build_syevd_descriptor int32 False 7 64)])"
  using syevd_kernel_selection
    [of "Parameter 0 (array_shape complex64 [7, 32, 32] [2, 1, 0])"
        complex64 "[7]" 32 "[2, 1, 0]" float32 fixed_builder "[]" False]
    syevd_kernel_selection
    [of "Parameter 0 (array_shape int32 [7, 64, 64] [2, 1, 0])"
        int32 "[7]" 64 "[2, 1, 0]" float32 fixed_builder "[]" False
        "NotImplementedError_dtype int32"]
  by auto

text \<open>
  C10. For a QR factorization of a tensor with batch dimensions \<open>B\<close> and trailing matrix
  shape \<open>(m, n)\<close>, \<open>geqrf\<close> issues one call to \<open>cusolver_geqrf\<close> whose result tuple
  declares, in this order, the factored matrix of shape \<open>B + (m, n)\<close> and the tau vector
  of shape \<open>B + (min(m, n),)\<close>, both with the input element type, an int32 status tensor
  of shape \<open>B\<close>, and the workspace; the function returns tuple elements 0, 1 and 2, in
  this order, and never element 3, the workspace.
\<close>

theorem geqrf_results:
  assumes "GetShape a = Inr (array_shape dtype (B @ [m, n]) lay)"
  shows "\<exists>out.
           geqrf build c a =
             (Inr (GetTupleElement out 0, GetTupleElement out 1, GetTupleElement out 2),
              c @ [DescriptorBuilt (build_geqrf_descriptor dtype (prod_list B) m n),
                   CustomCallIssued out])
           \<and> call_target_name out = ''cusolver_geqrf''
           \<and> call_operands out = [a]
           \<and> map (\<lambda>s. (element_type s, dimensions s)) (result_shapes out)
               = [(Some dtype, B @ [m, n]), (Some dtype, B @ [min m n]), (Some int32, B),
                  (Some dtype, [fst (build (build_geqrf_descriptor dtype (prod_list B) m n))])]
           \<and> GetShape (GetTupleElement out 0)
               = Inr (array_shape dtype (B @ [m, n]) (matrix_layout (length B)))
           \<and> GetShape (GetTupleElement out 1)
               = Inr (array_shape dtype (B @ [min m n]) (vector_layout (length B)))
           \<and> GetShape (GetTupleElement out 2)
               = Inr (array_shape int32 B (scalar_layout (length B)))"
  using assms
  by (simp add: geqrf_def Let_def prod_xs_prod_list nth_append range_down_nat
        range_down_pred matrix_layout_def vector_layout_def scalar_layout_def)

theorem geqrf_results_witness:
  "GetShape (Parameter 0 (array_shape float64 [2, 5, 3] [2, 1, 0]))
     = Inr (array_shape float64 ([2] @ [5, 3]) [2, 1, 0])
   \<and> (case fst (geqrf fixed_builder []
                   (Parameter 0 (array_shape float64 [2, 5, 3] [2, 1, 0]))) of
         Inl e \<Rightarrow> []
       | Inr (r0, r1, r2) \<Rightarrow> [GetShape r0, GetShape r1, GetShape r2])
      = [Inr (array_shape float64 [2, 5, 3] [1, 2, 0]),
         Inr (array_shape float64 [2, 3] [1, 0]),
         Inr (array_shape int32 [2] [0])]"
  using geqrf_results
    [of "Parameter 0 (array_shape float64 [2, 5, 3] [2, 1, 0])"
        float64 "[2]" 5 3 "[2, 1, 0]" fixed_builder "[]"]
  by (auto simp add: matrix_layout_def vector_layout_def scalar_layout_def)

text \<open>
  C5. For a triangular solve whose right-hand side \<open>b\<close> has batch dimensions \<open>bd\<close> and
  trailing dimensions \<open>(m, n)\<close>: if the dimensions of the triangular operand \<open>a\<close> are not
  \<open>bd + (k, k)\<close> with \<open>k = m\<close> on the left side and \<open>k = n\<close> otherwise, or if the two
  element types differ, \<open>trsm\<close> fails with the argument-mismatch \<open>ValueError\<close> that names
  both shapes, whatever the flags are, and the trace is unchanged: no descriptor builder
  is consulted and no custom call is issued.
\<close>

theorem trsm_argument_mismatch:
  assumes "GetShape b = Inr (array_shape dtype (bd @ [m, n]) b_lay)"
    and "GetShape a = Inr (array_shape a_dtype a_dims a_lay)"
    and "a_dims \<noteq> bd @ [if left_side then m else n, if left_side then m else n]
         \<or> a_dtype \<noteq> dtype"
  shows "trsm build c a b left_side lower trans_a conj_a diag =
           (Inl (ValueError_mismatch (array_shape a_dtype a_dims a_lay)
                                     (array_shape dtype (bd @ [m, n]) b_lay)), c)"
  using assms
  by (auto simp add: trsm_def Let_def nth_append)

theorem trsm_argument_mismatch_witness:
  "GetShape (Parameter 1 (array_shape float32 [2, 3, 4] [2, 1, 0]))
     = Inr (array_shape float32 ([2] @ [3, 4]) [2, 1, 0])
   \<and> GetShape (Parameter 0 (array_shape float32 [5, 3, 3] [2, 1, 0]))
     = Inr (array_shape float32 [5, 3, 3] [2, 1, 0])
   \<and> [5, 3, 3] \<noteq> [2] @ [if True then 3 else 4, if True then 3 else (4 :: int)]
   \<and> trsm fixed_builder []
        (Parameter 0 (array_shape float32 [5, 3, 3] [2, 1, 0]))
        (Parameter 1 (array_shape float32 [2, 3, 4] [2, 1, 0]))
        True False False False False
      = (Inl (ValueError_mismatch (array_shape float32 [5, 3, 3] [2, 1, 0])
                                  (array_shape float32 [2, 3, 4] [2, 1, 0])), [])"
  using trsm_argument_mismatch
    [of "Parameter 1 (array_shape float32 [2, 3, 4] [2, 1, 0])" float32 "[2]" 3 4
        "[2, 1, 0]" "Parameter 0 (array_shape float32 [5, 3, 3] [2, 1, 0])" float32
        "[5, 3, 3]" "[2, 1, 0]" True fixed_builder "[]" False False False False]
  by simp

text \<open>
  C6, as stated, fails: a request with \<open>conj_a = True\<close> and \<open>trans_a = False\<close> whose
  operands disagree is rejected by the argument-mismatch check, which comes first, and
  not with the conjugation error.
\<close>

theorem trsm_conj_without_trans_counterexample:
  "trsm fixed_builder []
     (Parameter 0 (array_shape float32 [5, 3, 3] [2, 1, 0]))
     (Parameter 1 (array_shape float32 [2, 3, 4] [2, 1, 0]))
     True False False True False
   = (Inl (ValueError_mismatch (array_shape float32 [5, 3, 3] [2, 1, 0])
                               (array_shape float32 [2, 3, 4] [2, 1, 0])), [])
   \<and> ValueError_mismatch (array_shape float32 [5, 3, 3] [2, 1, 0])
                          (array_shape float32 [2, 3, 4] [2, 1, 0])
     \<noteq> NotImplementedError_conj"
  by (simp add: trsm_def Let_def)

text \<open>
  C6, amended. For a triangular solve whose operands pass the rank and argument-mismatch
  checks (\<open>b\<close> of shape \<open>bd + (m, n)\<close>, \<open>a\<close> of shape \<open>bd + (k, k)\<close> with the same element
  type), \<open>conj_a = True\<close> with \<open>trans_a = False\<close> makes \<open>trsm\<close> fail with
  \<open>NotImplementedError("Conjugation without transposition not supported")\<close> and the trace
  unchanged: the descriptor builder has not been consulted and no custom call is issued.
  For every other combination of \<open>conj_a\<close> and \<open>trans_a\<close>, and any operands, this failure
  does not occur.
\<close>

theorem trsm_conj_without_trans:
  "(GetShape b = Inr (array_shape dtype (bd @ [m, n]) b_lay)
    \<and> GetShape a = Inr (array_shape dtype
          (bd @ [if left_side then m else n, if left_side then m else n]) a_lay)
    \<and> conj_a \<and> \<not> trans_a
    \<longrightarrow> trsm build c a b left_side lower trans_a conj_a diag
          = (Inl NotImplementedError_conj, c))
   \<and> (\<not> (conj_a' \<and> \<not> trans_a')
    \<longrightarrow> fst (trsm build' c' a' b' left_side' lower' trans_a' conj_a' diag')
          \<noteq> Inl NotImplementedError_conj)"
  by (auto simp add: trsm_def Let_def nth_append split: sum.splits shape.splits
        dest: GetShape_error)

theorem trsm_conj_without_trans_witness:
  "GetShape (Parameter 1 (array_shape float32 [2, 3, 4] [2, 1, 0]))
     = Inr (array_shape float32 ([2] @ [3, 4]) [2, 1, 0])
   \<and> GetShape (Parameter 0 (array_shape float32 [2, 3, 3] [2, 1, 0]))
     = Inr (array_shape float32 ([2] @ [if True then 3 else 4, if True then 3 else 4])
              [2, 1, 0])
   \<and> trsm fixed_builder []
        (Parameter 0 (array_shape float32 [2, 3, 3] [2, 1, 0]))
        (Parameter 1 (array_shape float32 [2, 3, 4] [2, 1, 0]))
        True False False True False
      = (Inl NotImplementedError_conj, [])
   \<and> \<not> (True \<and> \<not> True)
   \<and> fst (trsm fixed_builder []
        (Parameter 0 (array_shape float32 [2, 3, 3] [2, 1, 0]))
        (Parameter 1 (array_shape float32 [2, 3, 4] [2, 1, 0]))
        True False True True False)
      \<noteq> Inl NotImplementedError_conj"
  using trsm_conj_without_trans
    [of "Parameter 1 (array_shape float32 [2, 3, 4] [2, 1, 0])" float32 "[2]" 3 4
        "[2, 1, 0]" "Parameter 0 (array_shape float32 [2, 3, 3] [2, 1, 0])" True
        "[2, 1, 0]" True False fixed_builder "[]" False False
        True True fixed_builder "[]"
        "Parameter 0 (array_shape float32 [2, 3, 3] [2, 1, 0])"
        "Parameter 1 (array_shape float32 [2, 3, 4] [2, 1, 0])" True False False]
  by simp

text \<open>
  C9, as stated, fails. A tau vector whose batch prefix differs from the matrix's makes
  \<open>orgqr\<close> fail by a bare assertion, which carries no message and names no shape; and a
  tau vector whose element type differs from the matrix's is not rejected at all: the
  custom call is issued.
\<close>

theorem orgqr_mismatch_counterexample:
  "orgqr fixed_builder []
     (Parameter 0 (array_shape float32 [2, 4, 3] [2, 1, 0]))
     (Parameter 1 (array_shape float32 [5, 3] [1, 0]))
   = (Inl AssertionError, [])
   \<and> map call_target_name (custom_calls (snd (orgqr fixed_builder []
        (Parameter 0 (array_shape float32 [2, 4, 3] [2, 1, 0]))
        (Parameter 1 (array_shape float64 [2, 3] [1, 0])))))
     = [''cusolver_orgqr'']"
  by (simp add: orgqr_def Let_def)

text \<open>
  C9, amended. For the reflector expansion of a matrix with batch dimensions \<open>bd\<close> and
  trailing dimensions \<open>(m, n)\<close>: if the dimensions of tau without the last one differ
  from \<open>bd\<close>, \<open>orgqr\<close> fails with an \<open>AssertionError\<close> (a bare assertion, naming no shape)
  and the trace is unchanged: no descriptor builder is consulted and no custom call is
  issued.
\<close>

theorem orgqr_prefix_mismatch:
  assumes "GetShape a = Inr (array_shape dtype (bd @ [m, n]) lay)"
    and "GetShape tau = Inr (array_shape tau_dtype tau_dims tau_lay)"
    and "butlast tau_dims \<noteq> bd"
  shows "orgqr build c a tau = (Inl AssertionError, c)"
  using assms
  by (simp add: orgqr_def Let_def nth_append)

theorem orgqr_prefix_mismatch_witness:
  "GetShape (Parameter 0 (array_shape float32 [2, 4, 3] [2, 1, 0]))
     = Inr (array_shape float32 ([2] @ [4, 3]) [2, 1, 0])
   \<and> GetShape (Parameter 1 (array_shape float32 [5, 3] [1, 0]))
     = Inr (array_shape float32 [5, 3] [1, 0])
   \<and> butlast [5, 3] \<noteq> [2 :: int]
   \<and> orgqr fixed_builder []
        (Parameter 0 (array_shape float32 [2, 4, 3] [2, 1, 0]))
        (Parameter 1 (array_shape float32 [5, 3] [1, 0]))
      = (Inl AssertionError, [])"
  using orgqr_prefix_mismatch
    [of "Parameter 0 (array_shape float32 [2, 4, 3] [2, 1, 0])" float32 "[2]" 4 3
        "[2, 1, 0]" "Parameter 1 (array_shape float32 [5, 3] [1, 0])" float32 "[5, 3]"
        "[1, 0]" fixed_builder "[]"]
  by simp

text \<open>
  C3. For a singular value decomposition of a rank-2 operand of shape \<open>(m, n)\<close> whose
  dtype \<open>_real_type\<close> accepts: when \<open>m < n\<close> the descriptor is built for the transposed
  problem (\<open>n\<close> and \<open>m\<close> swapped) and \<open>u\<close> and \<open>vt\<close> are read from the swapped tuple
  elements (3 and 2 instead of 2 and 3), so that before truncation \<open>u\<close> has shape
  \<open>(m, m)\<close> and \<open>vt\<close> has shape \<open>(n, n)\<close> in both cases; when \<open>full_matrices\<close> is false
  \<open>u\<close> is sliced to \<open>(m, min(m, n))\<close> and \<open>vt\<close> to \<open>(min(m, n), n)\<close>. In particular
  \<open>m = 3\<close>, \<open>n = 5\<close> without full matrices gives \<open>u\<close> of shape \<open>(3, 3)\<close> and \<open>vt\<close> of
  shape \<open>(3, 5)\<close>. A dtype that \<open>_real_type\<close> rejects makes \<open>gesvd\<close> fail with that error
  before anything is built. Dimensions are non-negative, as those of every shape are.
\<close>

theorem gesvd_shapes:
  assumes "GetShape a = Inr (array_shape dtype [m, n] lay)" and "0 \<le> m" and "0 \<le> n"
  shows "(real_type dtype = Inr rt \<longrightarrow>
           (\<exists>s u vt info out u0 vt0 l.
              gesvd build c a full_matrices compute_uv =
                (Inr (s, u, vt, info),
                 c @ [DescriptorBuilt
                        (if m < n
                         then build_gesvd_descriptor dtype 1 n m compute_uv full_matrices
                         else build_gesvd_descriptor dtype 1 m n compute_uv full_matrices),
                      CustomCallIssued out])
              \<and> call_target_name out = ''cusolver_gesvd''
              \<and> GetShape s = Inr (array_shape rt [min m n] [0])
              \<and> GetShape info = Inr (array_shape int32 [] [])
              \<and> u0 = GetTupleElement out (if m < n then 3 else 2)
              \<and> vt0 = GetTupleElement out (if m < n then 2 else 3)
              \<and> l = (if m < n then [1, 0] else [0, 1])
              \<and> GetShape u0 = Inr (array_shape dtype [m, m] l)
              \<and> GetShape vt0 = Inr (array_shape dtype [n, n] l)
              \<and> (full_matrices \<longrightarrow> u = u0 \<and> vt = vt0)
              \<and> (\<not> full_matrices \<longrightarrow>
                    u = Slice u0 [0, 0] [m, min m n]
                  \<and> vt = Slice vt0 [0, 0] [min m n, n]
                  \<and> GetShape u = Inr (array_shape dtype [m, min m n] l)
                  \<and> GetShape vt = Inr (array_shape dtype [min m n, n] l))
              \<and> (m = 3 \<and> n = 5 \<and> \<not> full_matrices \<longrightarrow>
                    GetShape u = Inr (array_shape dtype [3, 3] [1, 0])
                  \<and> GetShape vt = Inr (array_shape dtype [3, 5] [1, 0]))))
       \<and> (real_type dtype = Inl e \<longrightarrow>
            gesvd build c a full_matrices compute_uv = (Inl e, c))"
proof (cases "m < n")
  case True
  with assms show ?thesis
    by (cases full_matrices) (simp_all add: gesvd_def Let_def del: real_type.simps)
next
  case False
  with assms show ?thesis
    by (cases full_matrices) (simp_all add: gesvd_def Let_def del: real_type.simps)
qed

theorem gesvd_shapes_witness:
  "GetShape (Parameter 0 (array_shape complex64 [3, 5] [1, 0]))
     = Inr (array_shape complex64 [3, 5] [1, 0])
   \<and> (0 :: int) \<le> 3 \<and> (0 :: int) \<le> 5
   \<and> real_type complex64 = Inr float32
   \<and> (case fst (gesvd fixed_builder []
                   (Parameter 0 (array_shape complex64 [3, 5] [1, 0])) False True) of
         Inl e \<Rightarrow> []
       | Inr (s, u, vt, info) \<Rightarrow> [GetShape s, GetShape u, GetShape vt, GetShape info])
      = [Inr (array_shape float32 [3] [0]),
         Inr (array_shape complex64 [3, 3] [1, 0]),
         Inr (array_shape complex64 [3, 5] [1, 0]),
         Inr (array_shape int32 [] [])]
   \<and> descriptor_requests (snd (gesvd fixed_builder []
         (Parameter 0 (array_shape complex64 [3, 5] [1, 0])) False True))
      = [build_gesvd_descriptor complex64 1 5 3 True False]
   \<and> GetShape (Parameter 0 (array_shape int8 [3, 5] [1, 0]))
     = Inr (array_shape int8 [3, 5] [1, 0])
   \<and> real_type int8 = Inl (NotImplementedError_dtype int8)
   \<and> gesvd fixed_builder [] (Parameter 0 (array_shape int8 [3, 5] [1, 0])) False True
      = (Inl (NotImplementedError_dtype int8), [])"
  using gesvd_shapes
    [of "Parameter 0 (array_shape complex64 [3, 5] [1, 0])" complex64 3 5 "[1, 0]"
        float32 fixed_builder "[]" False True]
    gesvd_shapes
    [of "Parameter 0 (array_shape int8 [3, 5] [1, 0])" int8 3 5 "[1, 0]"
        float32 fixed_builder "[]" False True "NotImplementedError_dtype int8"]
  by auto

text \<open>
  C2, as stated, fails for the singular value decomposition: with fewer rows than
  columns \<open>gesvd\<close> declares the layout \<open>(1, 0)\<close> for its 2-D operand and results, where
  the convention for no batch dimension is \<open>(0, 1)\<close>.
\<close>

theorem layout_convention_counterexample:
  "map minor_to_major (operand_shapes (hd (custom_calls (snd
     (gesvd fixed_builder [] (Parameter 0 (array_shape float32 [3, 5] [1, 0])) True True)))))
   = [[1, 0]]
   \<and> map minor_to_major (result_shapes (hd (custom_calls (snd
     (gesvd fixed_builder [] (Parameter 0 (array_shape float32 [3, 5] [1, 0])) True True)))))
   = [[1, 0], [0], [1, 0], [1, 0], [], [0]]
   \<and> matrix_layout 0 = [0, 1]"
  by (simp add: gesvd_def Let_def matrix_layout_def)

text \<open>
  C2, amended. For every accepted input whose primary operand has \<open>N\<close> batch dimensions
  (\<open>N\<close> is the rank minus two), \<open>trsm\<close>, \<open>getrf\<close>, \<open>geqrf\<close>, \<open>orgqr\<close> and \<open>syevd\<close> declare
  the layout \<open>(N, N+1, N-1, ..., 0)\<close> for every batched matrix operand and result,
  \<open>(N, N-1, ..., 0)\<close> for every per-batch vector and \<open>(N-1, ..., 0)\<close> for every per-batch
  scalar, identically for all operands and results of the call (the workspace buffers
  are flat, with layout \<open>(0)\<close>). \<open>gesvd\<close>, which has no batch dimension, declares \<open>(0)\<close>
  for the singular values and \<open>()\<close> for the status, and for its 2-D operand and results
  the convention's \<open>(0, 1)\<close> when rows \<open>\<ge>\<close> columns, and \<open>(1, 0)\<close>, uniformly, when rows
  \<open><\<close> columns (the transposed dispatch).
\<close>

theorem layout_convention:
  assumes "GetShape a = Inr (array_shape dt dims lay)"
  shows "(fst (trsm build c tri a left_side lower trans_a conj_a diag) = Inr r1 \<longrightarrow>
           (\<exists>out. custom_calls (snd (trsm build c tri a left_side lower trans_a conj_a diag))
                    = custom_calls c @ [out]
              \<and> map minor_to_major (operand_shapes out)
                  = [matrix_layout (length dims - 2), matrix_layout (length dims - 2)]
              \<and> map minor_to_major (result_shapes out)
                  = [matrix_layout (length dims - 2), [0], [0]]))
       \<and> (fst (getrf build c a) = Inr r2 \<longrightarrow>
           (\<exists>out. custom_calls (snd (getrf build c a)) = custom_calls c @ [out]
              \<and> map minor_to_major (operand_shapes out) = [matrix_layout (length dims - 2)]
              \<and> map minor_to_major (result_shapes out)
                  = [matrix_layout (length dims - 2), vector_layout (length dims - 2),
                     scalar_layout (length dims - 2), [0]]))
       \<and> (fst (geqrf build c a) = Inr r3 \<longrightarrow>
           (\<exists>out. custom_calls (snd (geqrf build c a)) = custom_calls c @ [out]
              \<and> map minor_to_major (operand_shapes out) = [matrix_layout (length dims - 2)]
              \<and> map minor_to_major (result_shapes out)
                  = [matrix_layout (length dims - 2), vector_layout (length dims - 2),
                     scalar_layout (length dims - 2), [0]]))
       \<and> (fst (orgqr build c a tau) = Inr r4 \<longrightarrow>
           (\<exists>out. custom_calls (snd (orgqr build c a tau)) = custom_calls c @ [out]
              \<and> map minor_to_major (operand_shapes out)
                  = [matrix_layout (length dims - 2), vector_layout (length dims - 2)]
              \<and> map minor_to_major (result_shapes out)
                  = [matrix_layout (length dims - 2), scalar_layout (length dims - 2), [0]]))
       \<and> (fst (syevd build c a lower) = Inr r5 \<longrightarrow>
           (\<exists>out. custom_calls (snd (syevd build c a lower)) = custom_calls c @ [out]
              \<and> map minor_to_major (operand_shapes out) = [matrix_layout (length dims - 2)]
              \<and> map minor_to_major (result_shapes out)
                  = [matrix_layout (length dims - 2), vector_layout (length dims - 2),
                     scalar_layout (length dims - 2), [0]]))
       \<and> (fst (gesvd build c a full_matrices compute_uv) = Inr r6 \<longrightarrow>
           (\<exists>out l. custom_calls (snd (gesvd build c a full_matrices compute_uv))
                    = custom_calls c @ [out]
              \<and> length dims = 2
              \<and> l = (if dims ! 0 < dims ! 1 then [1, 0] else matrix_layout 0)
              \<and> map minor_to_major (operand_shapes out) = [l]
              \<and> map minor_to_major (result_shapes out)
                  = [l, vector_layout 0, l, l, scalar_layout 0, [0]]))"
  by (intro conjI impI)
     (erule trsm_layouts [OF assms] getrf_layouts [OF assms] geqrf_layouts [OF assms]
        orgqr_layouts [OF assms] syevd_layouts [OF assms] gesvd_layouts [OF assms])+

theorem layout_convention_witness:
  "GetShape (Parameter 1 (array_shape float32 [2, 3, 3] [2, 1, 0])) = Inr (array_shape float32
       [2, 3, 3] [2, 1, 0])
   \<and> fst (trsm fixed_builder [] (Parameter 0 (array_shape float32 [2, 3, 3] [2, 1,
       0])) (Parameter 1 (array_shape float32 [2, 3, 3] [2, 1, 0])) True False False False
       False) = Inr (projr (fst (trsm fixed_builder [] (Parameter 0 (array_shape float32
       [2, 3, 3] [2, 1, 0])) (Parameter 1 (array_shape float32 [2, 3, 3] [2, 1, 0])) True
       False False False False)))
   \<and> map minor_to_major (operand_shapes (hd (custom_calls (snd (trsm fixed_builder []
       (Parameter 0 (array_shape float32 [2, 3, 3] [2, 1, 0])) (Parameter 1 (array_shape
       float32 [2, 3, 3] [2, 1, 0])) True False False False False))))) = [[1, 2, 0], [1, 2,
       0]]
   \<and> map minor_to_major (result_shapes (hd (custom_calls (snd (trsm fixed_builder []
       (Parameter 0 (array_shape float32 [2, 3, 3] [2, 1, 0])) (Parameter 1 (array_shape
       float32 [2, 3, 3] [2, 1, 0])) True False False False False))))) = [[1, 2, 0], [0],
       [0]]
   \<and> fst (getrf fixed_builder [] (Parameter 1 (array_shape float32 [2, 3, 3] [2, 1,
       0]))) = Inr (projr (fst (getrf fixed_builder [] (Parameter 1 (array_shape float32
       [2, 3, 3] [2, 1, 0])))))
   \<and> map minor_to_major (operand_shapes (hd (custom_calls (snd (getrf fixed_builder []
       (Parameter 1 (array_shape float32 [2, 3, 3] [2, 1, 0]))))))) = [[1, 2, 0]]
   \<and> map minor_to_major (result_shapes (hd (custom_calls (snd (getrf fixed_builder []
       (Parameter 1 (array_shape float32 [2, 3, 3] [2, 1, 0]))))))) = [[1, 2, 0], [1, 0],
       [0], [0]]
   \<and> fst (geqrf fixed_builder [] (Parameter 1 (array_shape float32 [2, 3, 3] [2, 1,
       0]))) = Inr (projr (fst (geqrf fixed_builder [] (Parameter 1 (array_shape float32
       [2, 3, 3] [2, 1, 0])))))
   \<and> map minor_to_major (operand_shapes (hd (custom_calls (snd (geqrf fixed_builder []
       (Parameter 1 (array_shape float32 [2, 3, 3] [2, 1, 0]))))))) = [[1, 2, 0]]
   \<and> map minor_to_major (result_shapes (hd (custom_calls (snd (geqrf fixed_builder []
       (Parameter 1 (array_shape float32 [2, 3, 3] [2, 1, 0]))))))) = [[1, 2, 0], [1, 0],
       [0], [0]]
   \<and> fst (orgqr fixed_builder [] (Parameter 1 (array_shape float32 [2, 3, 3] [2, 1,
       0])) (Parameter 2 (array_shape float32 [2, 3] [1, 0]))) = Inr (projr (fst (orgqr
       fixed_builder [] (Parameter 1 (array_shape float32 [2, 3, 3] [2, 1, 0])) (Parameter
       2 (array_shape float32 [2, 3] [1, 0])))))
   \<and> map minor_to_major (operand_shapes (hd (custom_calls (snd (orgqr fixed_builder []
       (Parameter 1 (array_shape float32 [2, 3, 3] [2, 1, 0])) (Parameter 2 (array_shape
       float32 [2, 3] [1, 0]))))))) = [[1, 2, 0], [1, 0]]
   \<and> map minor_to_major (result_shapes (hd (custom_calls (snd (orgqr fixed_builder []
       (Parameter 1 (array_shape float32 [2, 3, 3] [2, 1, 0])) (Parameter 2 (array_shape
       float32 [2, 3] [1, 0]))))))) = [[1, 2, 0], [0], [0]]
   \<and> fst (syevd fixed_builder [] (Parameter 1 (array_shape float32 [2, 3, 3] [2, 1,
       0])) False) = Inr (projr (fst (syevd fixed_builder [] (Parameter 1 (array_shape
       float32 [2, 3, 3] [2, 1, 0])) False)))
   \<and> map minor_to_major (operand_shapes (hd (custom_calls (snd (syevd fixed_builder []
       (Parameter 1 (array_shape float32 [2, 3, 3] [2, 1, 0])) False))))) = [[1, 2, 0]]
   \<and> map minor_to_major (result_shapes (hd (custom_calls (snd (syevd fixed_builder []
       (Parameter 1 (array_shape float32 [2, 3, 3] [2, 1, 0])) False))))) = [[1, 2, 0], [1,
       0], [0], [0]]
   \<and> GetShape (Parameter 1 (array_shape float32 [3, 5] [1, 0])) = Inr (array_shape
       float32 [3, 5] [1, 0])
   \<and> fst (gesvd fixed_builder [] (Parameter 1 (array_shape float32 [3, 5] [1, 0]))
       True True) = Inr (projr (fst (gesvd fixed_builder [] (Parameter 1 (array_shape
       float32 [3, 5] [1, 0])) True True)))
   \<and> map minor_to_major (operand_shapes (hd (custom_calls (snd (gesvd fixed_builder []
       (Parameter 1 (array_shape float32 [3, 5] [1, 0])) True True))))) = [[1, 0]]
   \<and> map minor_to_major (result_shapes (hd (custom_calls (snd (gesvd fixed_builder []
       (Parameter 1 (array_shape float32 [3, 5] [1, 0])) True True))))) = [[1, 0], [0], [1,
       0], [1, 0], [], [0]]"
  using
    layout_convention
      [where a = "Parameter 1 (array_shape float32 [2, 3, 3] [2, 1, 0])" and dt = float32
       and dims = "[2, 3, 3]" and lay = "[2, 1, 0]"
         and build = fixed_builder and c = "[]"
         and tri = "Parameter 0 (array_shape float32 [2, 3, 3] [2, 1, 0])" and tau =
       "Parameter 2 (array_shape float32 [2, 3] [1, 0])"
         and left_side = True and lower = False and trans_a = False and conj_a = False
         and diag = False
         and ?r1.0 = "projr (fst (trsm fixed_builder [] (Parameter 0 (array_shape float32
       [2, 3, 3] [2, 1, 0])) (Parameter 1 (array_shape float32 [2, 3, 3] [2, 1, 0])) True
       False False False False))"
         and ?r2.0 = "projr (fst (getrf fixed_builder [] (Parameter 1 (array_shape float32
       [2, 3, 3] [2, 1, 0]))))"
         and ?r3.0 = "projr (fst (geqrf fixed_builder [] (Parameter 1 (array_shape float32
       [2, 3, 3] [2, 1, 0]))))"
         and ?r4.0 = "projr (fst (orgqr fixed_builder [] (Parameter 1 (array_shape float32
       [2, 3, 3] [2, 1, 0])) (Parameter 2 (array_shape float32 [2, 3] [1, 0]))))"
         and ?r5.0 = "projr (fst (syevd fixed_builder [] (Parameter 1 (array_shape float32
       [2, 3, 3] [2, 1, 0])) False))"]
    layout_convention
      [where a = "Parameter 1 (array_shape float32 [3, 5] [1, 0])" and dt = float32 and
       dims = "[3, 5]" and lay = "[1, 0]"
         and build = fixed_builder and c = "[]" and full_matrices = True and compute_uv =
       True
         and ?r6.0 = "projr (fst (gesvd fixed_builder [] (Parameter 1 (array_shape float32
       [3, 5] [1, 0])) True True))"]
  by (simp add: trsm_def getrf_def geqrf_def orgqr_def syevd_def gesvd_def Let_def
        prod_xs_def range_down_def upto.simps matrix_layout_def vector_layout_def
        scalar_layout_def fixed_builder_def)

text \<open>
  C8. Round trip: for every input an operation accepts, the dimensions it declares for
  its primary operand in the custom call (the operand the batch decomposition is taken
  from: the right-hand side \<open>b\<close>, declared second, for \<open>trsm\<close>; the matrix \<open>a\<close>, declared
  first, for the others) decompose into the same BatchSpec as the input's dimensions:
  the same batch dimensions, the same batch count (their product) and the same rows and
  columns. The batch count handed to the descriptor builder is that product.
\<close>

theorem batch_spec_roundtrip:
  assumes "GetShape a = Inr (array_shape dt dims lay)"
  shows "(fst (trsm build c tri a left_side lower trans_a conj_a diag) = Inr r1 \<longrightarrow>
           (\<exists>out req. snd (trsm build c tri a left_side lower trans_a conj_a diag)
                    = c @ [DescriptorBuilt req, CustomCallIssued out]
              \<and> 2 \<le> length dims
              \<and> derive_BatchSpec (dimensions (operand_shapes out ! 1))
                  = derive_BatchSpec dims
              \<and> request_batch req = batch_count (derive_BatchSpec dims)))
       \<and> (fst (getrf build c a) = Inr r2 \<longrightarrow>
           (\<exists>out req. snd (getrf build c a)
                    = c @ [DescriptorBuilt req, CustomCallIssued out]
              \<and> 2 \<le> length dims
              \<and> derive_BatchSpec (dimensions (operand_shapes out ! 0))
                  = derive_BatchSpec dims
              \<and> request_batch req = batch_count (derive_BatchSpec dims)))
       \<and> (fst (geqrf build c a) = Inr r3 \<longrightarrow>
           (\<exists>out req. snd (geqrf build c a)
                    = c @ [DescriptorBuilt req, CustomCallIssued out]
              \<and> 2 \<le> length dims
              \<and> derive_BatchSpec (dimensions (operand_shapes out ! 0))
                  = derive_BatchSpec dims
              \<and> request_batch req = batch_count (derive_BatchSpec dims)))
       \<and> (fst (orgqr build c a tau) = Inr r4 \<longrightarrow>
           (\<exists>out req. snd (orgqr build c a tau)
                    = c @ [DescriptorBuilt req, CustomCallIssued out]
              \<and> 2 \<le> length dims
              \<and> derive_BatchSpec (dimensions (operand_shapes out ! 0))
                  = derive_BatchSpec dims
              \<and> request_batch req = batch_count (derive_BatchSpec dims)))
       \<and> (fst (syevd build c a lower) = Inr r5 \<longrightarrow>
           (\<exists>out req. snd (syevd build c a lower)
                    = c @ [DescriptorBuilt req, CustomCallIssued out]
              \<and> 2 \<le> length dims
              \<and> derive_BatchSpec (dimensions (operand_shapes out ! 0))
                  = derive_BatchSpec dims
              \<and> request_batch req = batch_count (derive_BatchSpec dims)))
       \<and> (fst (gesvd build c a full_matrices compute_uv) = Inr r6 \<longrightarrow>
           (\<exists>out req. snd (gesvd build c a full_matrices compute_uv)
                    = c @ [DescriptorBuilt req, CustomCallIssued out]
              \<and> 2 \<le> length dims
              \<and> derive_BatchSpec (dimensions (operand_shapes out ! 0))
                  = derive_BatchSpec dims
              \<and> request_batch req = batch_count (derive_BatchSpec dims)))"
  by (intro conjI impI)
     (erule trsm_roundtrip [OF assms] getrf_roundtrip [OF assms] geqrf_roundtrip [OF assms]
        orgqr_roundtrip [OF assms] syevd_roundtrip [OF assms] gesvd_roundtrip [OF assms])+

theorem batch_spec_roundtrip_witness:
  "GetShape (Parameter 1 (array_shape float32 [2, 4, 3, 3] [3, 2, 1, 0])) = Inr (array_shape
       float32 [2, 4, 3, 3] [3, 2, 1, 0])
   \<and> derive_BatchSpec [2, 4, 3, 3] = \<lparr>batch_dims = [2, 4], batch_count = 8,
       rows = 3, cols = 3\<rparr>
   \<and> fst (trsm fixed_builder [] (Parameter 0 (array_shape float32 [2, 4, 3, 3] [3, 2,
       1, 0])) (Parameter 1 (array_shape float32 [2, 4, 3, 3] [3, 2, 1, 0])) True False
       False False False) = Inr (projr (fst (trsm fixed_builder [] (Parameter 0
       (array_shape float32 [2, 4, 3, 3] [3, 2, 1, 0])) (Parameter 1 (array_shape float32
       [2, 4, 3, 3] [3, 2, 1, 0])) True False False False False)))
   \<and> derive_BatchSpec (dimensions (operand_shapes (hd (custom_calls (snd (trsm
       fixed_builder [] (Parameter 0 (array_shape float32 [2, 4, 3, 3] [3, 2, 1, 0]))
       (Parameter 1 (array_shape float32 [2, 4, 3, 3] [3, 2, 1, 0])) True False False False
       False)))) ! 1)) = \<lparr>batch_dims = [2, 4], batch_count = 8, rows = 3, cols =
       3\<rparr>
   \<and> map request_batch (descriptor_requests (snd (trsm fixed_builder [] (Parameter 0
       (array_shape float32 [2, 4, 3, 3] [3, 2, 1, 0])) (Parameter 1 (array_shape float32
       [2, 4, 3, 3] [3, 2, 1, 0])) True False False False False))) = [8]
   \<and> fst (getrf fixed_builder [] (Parameter 1 (array_shape float32 [2, 4, 3, 3] [3, 2,
       1, 0]))) = Inr (projr (fst (getrf fixed_builder [] (Parameter 1 (array_shape float32
       [2, 4, 3, 3] [3, 2, 1, 0])))))
   \<and> derive_BatchSpec (dimensions (operand_shapes (hd (custom_calls (snd (getrf
       fixed_builder [] (Parameter 1 (array_shape float32 [2, 4, 3, 3] [3, 2, 1, 0])))))) !
       0)) = \<lparr>batch_dims = [2, 4], batch_count = 8, rows = 3, cols = 3\<rparr>
   \<and> map request_batch (descriptor_requests (snd (getrf fixed_builder [] (Parameter 1
       (array_shape float32 [2, 4, 3, 3] [3, 2, 1, 0]))))) = [8]
   \<and> fst (geqrf fixed_builder [] (Parameter 1 (array_shape float32 [2, 4, 3, 3] [3, 2,
       1, 0]))) = Inr (projr (fst (geqrf fixed_builder [] (Parameter 1 (array_shape float32
       [2, 4, 3, 3] [3, 2, 1, 0])))))
   \<and> derive_BatchSpec (dimensions (operand_shapes (hd (custom_calls (snd (geqrf
       fixed_builder [] (Parameter 1 (array_shape float32 [2, 4, 3, 3] [3, 2, 1, 0])))))) !
       0)) = \<lparr>batch_dims = [2, 4], batch_count = 8, rows = 3, cols = 3\<rparr>
   \<and> map request_batch (descriptor_requests (snd (geqrf fixed_builder [] (Parameter 1
       (array_shape float32 [2, 4, 3, 3] [3, 2, 1, 0]))))) = [8]
   \<and> fst (orgqr fixed_builder [] (Parameter 1 (array_shape float32 [2, 4, 3, 3] [3, 2,
       1, 0])) (Parameter 2 (array_shape float32 [2, 4, 3] [2, 1, 0]))) = Inr (projr (fst
       (orgqr fixed_builder [] (Parameter 1 (array_shape float32 [2, 4, 3, 3] [3, 2, 1,
       0])) (Parameter 2 (array_shape float32 [2, 4, 3] [2, 1, 0])))))
   \<and> derive_BatchSpec (dimensions (operand_shapes (hd (custom_calls (snd (orgqr
       fixed_builder [] (Parameter 1 (array_shape float32 [2, 4, 3, 3] [3, 2, 1, 0]))
       (Parameter 2 (array_shape float32 [2, 4, 3] [2, 1, 0])))))) ! 0)) =
       \<lparr>batch_dims = [2, 4], batch_count = 8, rows = 3, cols = 3\<rparr>
   \<and> map request_batch (descriptor_requests (snd (orgqr fixed_builder [] (Parameter 1
       (array_shape float32 [2, 4, 3, 3] [3, 2, 1, 0])) (Parameter 2 (array_shape float32
       [2, 4, 3] [2, 1, 0]))))) = [8]
   \<and> fst (syevd fixed_builder [] (Parameter 1 (array_shape float32 [2, 4, 3, 3] [3, 2,
       1, 0])) False) = Inr (projr (fst (syevd fixed_builder [] (Parameter 1 (array_shape
       float32 [2, 4, 3, 3] [3, 2, 1, 0])) False)))
   \<and> derive_BatchSpec (dimensions (operand_shapes (hd (custom_calls (snd (syevd
       fixed_builder [] (Parameter 1 (array_shape float32 [2, 4, 3, 3] [3, 2, 1, 0]))
       False)))) ! 0)) = \<lparr>batch_dims = [2, 4], batch_count = 8, rows = 3, cols =
       3\<rparr>
   \<and> map request_batch (descriptor_requests (snd (syevd fixed_builder [] (Parameter 1
       (array_shape float32 [2, 4, 3, 3] [3, 2, 1, 0])) False))) = [8]
   \<and> GetShape (Parameter 1 (array_shape float32 [3, 5] [1, 0])) = Inr (array_shape
       float32 [3, 5] [1, 0])
   \<and> fst (gesvd fixed_builder [] (Parameter 1 (array_shape float32 [3, 5] [1, 0]))
       True True) = Inr (projr (fst (gesvd fixed_builder [] (Parameter 1 (array_shape
       float32 [3, 5] [1, 0])) True True)))
   \<and> derive_BatchSpec (dimensions (operand_shapes (hd (custom_calls (snd (gesvd
       fixed_builder [] (Parameter 1 (array_shape float32 [3, 5] [1, 0])) True True)))) !
       0)) = \<lparr>batch_dims = [], batch_count = 1, rows = 3, cols = 5\<rparr>
   \<and> map request_batch (descriptor_requests (snd (gesvd fixed_builder [] (Parameter 1
       (array_shape float32 [3, 5] [1, 0])) True True))) = [1]"
  using
    batch_spec_roundtrip
      [where a = "Parameter 1 (array_shape float32 [2, 4, 3, 3] [3, 2, 1, 0])" and dt =
       float32 and dims = "[2, 4, 3, 3]"
         and lay = "[3, 2, 1, 0]" and build = fixed_builder and c = "[]"
         and tri = "Parameter 0 (array_shape float32 [2, 4, 3, 3] [3, 2, 1, 0])"
         and tau = "Parameter 2 (array_shape float32 [2, 4, 3] [2, 1, 0])"
         and left_side = True and lower = False and trans_a = False and conj_a = False
         and diag = False
         and ?r1.0 = "projr (fst (trsm fixed_builder [] (Parameter 0 (array_shape float32
       [2, 4, 3, 3] [3, 2, 1, 0])) (Parameter 1 (array_shape float32 [2, 4, 3, 3] [3, 2, 1,
       0])) True False False False False))"
         and ?r2.0 = "projr (fst (getrf fixed_builder [] (Parameter 1 (array_shape float32
       [2, 4, 3, 3] [3, 2, 1, 0]))))"
         and ?r3.0 = "projr (fst (geqrf fixed_builder [] (Parameter 1 (array_shape float32
       [2, 4, 3, 3] [3, 2, 1, 0]))))"
         and ?r4.0 = "projr (fst (orgqr fixed_builder [] (Parameter 1 (array_shape float32
       [2, 4, 3, 3] [3, 2, 1, 0])) (Parameter 2 (array_shape float32 [2, 4, 3] [2, 1,
       0]))))"
         and ?r5.0 = "projr (fst (syevd fixed_builder [] (Parameter 1 (array_shape float32
       [2, 4, 3, 3] [3, 2, 1, 0])) False))"]
    batch_spec_roundtrip
      [where a = "Parameter 1 (array_shape float32 [3, 5] [1, 0])" and dt = float32 and
       dims = "[3, 5]" and lay = "[1, 0]"
         and build = fixed_builder and c = "[]" and full_matrices = True and compute_uv =
       True
         and ?r6.0 = "projr (fst (gesvd fixed_builder [] (Parameter 1 (array_shape float32
       [3, 5] [1, 0])) True True))"]
  by (simp add: trsm_def getrf_def geqrf_def orgqr_def syevd_def gesvd_def Let_def
        prod_xs_def range_down_def upto.simps derive_BatchSpec_def fixed_builder_def)

end
